theory Spec2Isabelle
  imports Main "HOL-Library.Sublist"
begin

section \<open>Data model of the spawner package\<close>

text \<open>
  The Kubernetes API types are modelled with the fields that \<open>pkg/spawner/spawner.go\<close>
  reads or writes, plus the fields its test reads (volumes, pull policy), so that an
  update of one field visibly leaves the others alone. A Go \<open>string\<close> is a byte
  sequence, here a \<open>string\<close>; a \<open>[]byte\<close> is modelled the same way. A nil slice and an
  empty slice are both the empty list: the source only ever asks for their \<open>len\<close>.
\<close>

record ownerReference =
  or_APIVersion :: string
  or_Kind :: string
  or_Name :: string
  or_UID :: string

record envVar =
  ev_Name :: string
  ev_Value :: string

record container =
  c_Name :: string
  c_Image :: string
  c_Args :: "string list"
  c_Env :: "envVar list"
  c_ImagePullPolicy :: string

record volume =
  v_Name :: string
  v_ClaimName :: string

text \<open>
  \<open>apiv1.Pod\<close>: \<open>ObjectMeta.Name\<close>, \<open>ObjectMeta.UID\<close>, \<open>ObjectMeta.OwnerReferences\<close>,
  \<open>Spec.Containers\<close>, \<open>Spec.Volumes\<close> and \<open>Status.PodIP\<close>.
\<close>

record pod =
  pod_Name :: string
  pod_UID :: string
  pod_OwnerReferences :: "ownerReference list"
  pod_Containers :: "container list"
  pod_Volumes :: "volume list"
  pod_PodIP :: string

text \<open>The zero value \<open>apiv1.Pod{}\<close> and the zero value of the unset container fields.\<close>

definition zero_pod :: pod where
  "zero_pod = \<lparr>pod_Name = [], pod_UID = [], pod_OwnerReferences = [],
     pod_Containers = [], pod_Volumes = [], pod_PodIP = []\<rparr>"

text \<open>The \<open>Spawner\<close> struct.\<close>

record spawner =
  PatientNamespace :: string
  PatientImage :: string
  ServiceURL :: string
  IngressURL :: string
  PodTemplate :: string

section \<open>Hostname derivation\<close>

text \<open>
  \<open>strings.Replace(s, old, new, n)\<close> of the Go standard library returns a copy of \<open>s\<close>
  with the first \<open>n\<close> non-overlapping instances of \<open>old\<close> replaced by \<open>new\<close>, scanning
  from the left; a negative \<open>n\<close> means no limit, and \<open>old = new\<close> or \<open>n = 0\<close> returns
  \<open>s\<close> unchanged. \<open>replace_first\<close> is its replacement loop for a budget of \<open>k\<close>
  replacements. An empty \<open>old\<close> (which the library matches between UTF-8 sequences)
  is not what this program passes, and \<open>replace_first\<close> leaves the string alone there.
\<close>

fun replace_first :: "nat \<Rightarrow> string \<Rightarrow> string \<Rightarrow> string \<Rightarrow> string" where
  "replace_first 0 old new s = s"
| "replace_first (Suc k) old new [] = []"
| "replace_first (Suc k) old new (c # cs) =
     (if old \<noteq> [] \<and> prefix old (c # cs)
      then new @ replace_first k old new (drop (length old) (c # cs))
      else c # replace_first (Suc k) old new cs)"

definition strings_Replace :: "string \<Rightarrow> string \<Rightarrow> string \<Rightarrow> int \<Rightarrow> string" where
  "strings_Replace s old new n =
     (if old = new \<or> n = 0 then s
      else if n < 0 then replace_first (Suc (length s)) old new s
      else replace_first (nat n) old new s)"

text \<open>
  \<open>getPodSDHostname\<close>: at most four dots of \<open>p.Status.PodIP\<close> become hyphens, and
  \<open>fmt.Sprintf("%s.default.pod.cluster.local", ip)\<close> appends the suffix.
\<close>

definition getPodSDHostname :: "pod \<Rightarrow> string" where
  "getPodSDHostname p =
     (let ip = strings_Replace (pod_PodIP p) ''.'' ''-'' 4
      in ip @ ''.default.pod.cluster.local'')"

section \<open>Pod configuration\<close>

text \<open>
  \<open>configurePod\<close> mutates \<open>tmpl\<close> in place; the model returns the mutated pod. The
  statements are kept in the order of the source. The index \<open>0\<close> is in range at both
  writes, because the guard before them makes the container list non-empty.
\<close>

definition patient_container :: container where
  "patient_container = \<lparr>c_Name = ''patient'', c_Image = [], c_Args = [''patient''],
     c_Env = [], c_ImagePullPolicy = []\<rparr>"

definition patient_env :: "spawner \<Rightarrow> pod \<Rightarrow> envVar list" where
  "patient_env spw parent =
     [\<lparr>ev_Name = ''KUBENURSE_DIRECT_URL'',
        ev_Value = ''http://'' @ pod_PodIP parent @ '':8080''\<rparr>,
      \<lparr>ev_Name = ''KUBENURSE_DNS_URL'',
        ev_Value = ''http://'' @ getPodSDHostname parent @ '':8080''\<rparr>,
      \<lparr>ev_Name = ''KUBENURSE_INGRESS_URL'', ev_Value = IngressURL spw\<rparr>,
      \<lparr>ev_Name = ''KUBENURSE_SERVICE_URL'', ev_Value = ServiceURL spw\<rparr>]"

definition configurePod :: "spawner \<Rightarrow> pod \<Rightarrow> pod \<Rightarrow> pod" where
  "configurePod spw tmpl parent =
     (let t1 = tmpl\<lparr>pod_Name := pod_Name parent @ ''-patient''\<rparr>;
          t2 = t1\<lparr>pod_OwnerReferences :=
                 [\<lparr>or_APIVersion = ''v1'', or_Kind = ''Pod'',
                   or_Name = pod_Name parent, or_UID = pod_UID parent\<rparr>]\<rparr>;
          t3 = (if length (pod_Containers t2) = 0
                then t2\<lparr>pod_Containers := [patient_container]\<rparr> else t2);
          cs3 = pod_Containers t3;
          t4 = t3\<lparr>pod_Containers := cs3[0 := (cs3 ! 0)\<lparr>c_Image := PatientImage spw\<rparr>]\<rparr>;
          cs4 = pod_Containers t4
      in t4\<lparr>pod_Containers := cs4[0 := (cs4 ! 0)\<lparr>c_Env := patient_env spw parent\<rparr>]\<rparr>)"

text \<open>
  The words of the specification for the hostname: every dot becomes a hyphen. It is
  compared below with what \<open>strings.Replace\<close> with the limit \<open>4\<close> computes.
\<close>

definition dots_to_hyphens :: "string \<Rightarrow> string" where
  "dots_to_hyphens s = map (\<lambda>c. if c = CHR ''.'' then CHR ''-'' else c) s"

section \<open>Errors and results\<close>

text \<open>
  \<open>schema.GroupVersionKind\<close>, and Go \<open>error\<close> values. An error is either one that a
  collaborator (the API client, the deserializer, the scheme builder) handed back, or
  one built by \<open>fmt.Errorf\<close> in this package: with \<open>%w\<close> around a cause, or with
  \<open>%q\<close> around the group-version-kind found in the template. The format string is
  kept as the source writes it.
\<close>

record groupVersionKind =
  gvk_Group :: string
  gvk_Version :: string
  gvk_Kind :: string

datatype err =
    ExternalError string
  | Errorf_w string err
  | Errorf_q string groupVersionKind

text \<open>
  What a call can do: return a value, block for ever, or bring the process down by a
  panic in another goroutine.
\<close>

datatype 'a outcome = Returns 'a | Blocks | Panics

section \<open>Template decoding\<close>

text \<open>
  The collaborators of \<open>decodePodTemplate\<close> that live in the Kubernetes libraries:
  the result of \<open>clientgoscheme.AddToScheme\<close> on a fresh scheme, and the parser of a
  non-empty document, which yields the pod it decoded into and the kind it resolved.
\<close>

record codec =
  AddToScheme :: "err option"
  parse_document :: "string \<Rightarrow> err + (pod \<times> groupVersionKind)"

text \<open>
  Modelled from the spec: the schema-aware deserializer
  (\<open>serializer.NewCodecFactory(sch).UniversalDeserializer().Decode\<close>) is library code
  that is not among the sources. The specification says of it that nil or empty input
  is accepted and gives a zero-valued pod with no error, that a syntactic failure is an
  error, and that a successful parse resolves a resource kind. So on empty input the
  target object \<open>into\<close> is left as it is and the kind reported is the target's own,
  \<open>v1\<close> \<open>Pod\<close>; a non-empty document goes to the parser.
\<close>

definition universal_decode :: "codec \<Rightarrow> string \<Rightarrow> pod \<Rightarrow> err + (pod \<times> groupVersionKind)" where
  "universal_decode cd data into =
     (if data = []
      then Inr (into, \<lparr>gvk_Group = [], gvk_Version = ''v1'', gvk_Kind = ''Pod''\<rparr>)
      else parse_document cd data)"

definition decodePodTemplate :: "codec \<Rightarrow> string \<Rightarrow> err + pod" where
  "decodePodTemplate cd tmpl =
     (case AddToScheme cd of
        Some e \<Rightarrow> Inl (Errorf_w ''building scheme: %w'' e)
      | None \<Rightarrow>
          (let pod = zero_pod
           in case universal_decode cd tmpl pod of
                Inl e \<Rightarrow> Inl (Errorf_w ''deserializing pod template: %w'' e)
              | Inr (pod', groupVersionKind) \<Rightarrow>
                  if gvk_Kind groupVersionKind \<noteq> ''Pod''
                  then Inl (Errorf_q ''pod template is not of type Pod, got: %q''
                              groupVersionKind)
                  else Inr pod'))"

section \<open>Waiting for the address\<close>

text \<open>
  The informer hands its handlers values of type \<open>interface{}\<close>; each handler asserts
  \<open>*apiv1.Pod\<close>, which panics on anything else. \<open>checkForIP\<close> sends on the channel
  \<open>c\<close> when the name matches and the address is non-empty, and does nothing otherwise.
  It reads no state: nothing records that a signal was already sent.
\<close>

datatype obj = PodObj pod | OtherObj

datatype event = AddEvent obj | UpdateEvent obj obj | DeleteEvent obj

datatype handler_action = NoOp | SendOnC | AssertionPanic

definition checkForIP :: "string \<Rightarrow> pod \<Rightarrow> handler_action" where
  "checkForIP podName p =
     (if pod_Name p = podName \<and> pod_PodIP p \<noteq> [] then SendOnC else NoOp)"

definition assert_pod :: "string \<Rightarrow> obj \<Rightarrow> handler_action" where
  "assert_pod podName x =
     (case x of PodObj p \<Rightarrow> checkForIP podName p | OtherObj \<Rightarrow> AssertionPanic)"

fun handle_event :: "string \<Rightarrow> event \<Rightarrow> handler_action" where
  "handle_event podName (AddEvent newObj) = assert_pod podName newObj"
| "handle_event podName (UpdateEvent oldObj newObj) = assert_pod podName newObj"
| "handle_event podName (DeleteEvent deadObj) = assert_pod podName deadObj"

text \<open>
  The channel \<open>c\<close>. \<open>make(chan struct{})\<close> gives an open channel without a
  buffer. A send on an open channel hands one value to one receiver and leaves the
  channel open; a send on a closed channel panics. Only \<open>close\<close> closes a channel,
  and the only \<open>close(c)\<close> of \<open>waitForIP\<close> is deferred: it runs when \<open>waitForIP\<close>
  returns, that is after \<open>informer.Run(c)\<close> has returned.
\<close>

datatype chan_state = ChanOpen | ChanClosed

fun chan_send :: "chan_state \<Rightarrow> chan_state option" where
  "chan_send ChanOpen = Some ChanOpen"
| "chan_send ChanClosed = None"

text \<open>
  \<open>informer.Run(c)\<close> with the three handlers registered, over the events the informer
  delivers, in order, started with the channel in the given state. The argument of
  \<open>Run\<close> is the stop channel of the informer: \<open>Run\<close> returns once that channel is
  closed. A value sent on it is taken by one of the goroutines of the informer that
  receive from it (or the sending handler waits for one); that does not close the
  channel, so \<open>Run\<close> goes on. When the events run out and the channel is still open,
  \<open>Run\<close> keeps waiting: the call blocks.
\<close>

fun informer_Run :: "chan_state \<Rightarrow> string \<Rightarrow> event list \<Rightarrow> unit outcome" where
  "informer_Run ChanClosed podName evs = Returns ()"
| "informer_Run ChanOpen podName [] = Blocks"
| "informer_Run ChanOpen podName (e # es) =
     (case handle_event podName e of
        NoOp \<Rightarrow> informer_Run ChanOpen podName es
      | SendOnC \<Rightarrow>
          (case chan_send ChanOpen of
             None \<Rightarrow> Panics
           | Some c' \<Rightarrow> informer_Run c' podName es)
      | AssertionPanic \<Rightarrow> Panics)"

section \<open>The API client and the cycle\<close>

text \<open>
  \<open>context.Context\<close> as far as this package builds it: the background context and a
  timeout (in seconds) on top of a parent.
\<close>

datatype go_context = Background | WithTimeout go_context nat

text \<open>
  \<open>kubernetes.Interface\<close> is an interface: any implementation may be passed. It is
  modelled as a deterministic machine over a state \<open>'c\<close> of its own (the cluster as
  the client sees it). The first argument of each operation is the namespace of
  \<open>CoreV1().Pods(namespace)\<close>. \<open>Pods_Informer\<close> gives the events that a
  namespace-scoped pod informer built on the client delivers to its handlers.
\<close>

record 'c clientset =
  Pods_Get :: "string \<Rightarrow> go_context \<Rightarrow> string \<Rightarrow> 'c \<Rightarrow> (err + pod) \<times> 'c"
  Pods_Create :: "string \<Rightarrow> go_context \<Rightarrow> pod \<Rightarrow> 'c \<Rightarrow> (err + pod) \<times> 'c"
  Pods_Delete :: "string \<Rightarrow> go_context \<Rightarrow> string \<Rightarrow> 'c \<Rightarrow> err option \<times> 'c"
  Pods_Informer :: "string \<Rightarrow> 'c \<Rightarrow> event list \<times> 'c"

text \<open>
  The world a cycle runs in: the client's state, the API calls made so far in order,
  and the lines written with \<open>log.Printf\<close> (format and argument).
\<close>

datatype call =
    GetCall string go_context string
  | CreateCall string go_context pod
  | DeleteCall string go_context string
  | InformerCall string

fun is_delete :: "call \<Rightarrow> bool" where
  "is_delete (DeleteCall ns ctx name) = True"
| "is_delete (GetCall ns ctx name) = False"
| "is_delete (CreateCall ns ctx p) = False"
| "is_delete (InformerCall ns) = False"

record 'c world =
  client :: 'c
  calls :: "call list"
  logs :: "(string \<times> err) list"

definition call_Get ::
  "'c clientset \<Rightarrow> string \<Rightarrow> go_context \<Rightarrow> string \<Rightarrow> 'c world \<Rightarrow> (err + pod) \<times> 'c world" where
  "call_Get cs ns ctx name w =
     (case Pods_Get cs ns ctx name (client w) of
        (r, c') \<Rightarrow> (r, w\<lparr>client := c', calls := calls w @ [GetCall ns ctx name]\<rparr>))"

definition call_Create ::
  "'c clientset \<Rightarrow> string \<Rightarrow> go_context \<Rightarrow> pod \<Rightarrow> 'c world \<Rightarrow> (err + pod) \<times> 'c world" where
  "call_Create cs ns ctx p w =
     (case Pods_Create cs ns ctx p (client w) of
        (r, c') \<Rightarrow> (r, w\<lparr>client := c', calls := calls w @ [CreateCall ns ctx p]\<rparr>))"

definition call_Delete ::
  "'c clientset \<Rightarrow> string \<Rightarrow> go_context \<Rightarrow> string \<Rightarrow> 'c world \<Rightarrow> err option \<times> 'c world" where
  "call_Delete cs ns ctx name w =
     (case Pods_Delete cs ns ctx name (client w) of
        (r, c') \<Rightarrow> (r, w\<lparr>client := c', calls := calls w @ [DeleteCall ns ctx name]\<rparr>))"

text \<open>
  \<open>waitForIP\<close> takes the client, the namespace and the pod name, and no context. It
  makes the channel, so \<open>informer.Run(c)\<close> starts on an open channel. Its only
  \<open>return\<close> statement returns \<open>nil\<close>, after \<open>informer.Run(c)\<close> has returned; the
  deferred \<open>close(c)\<close> runs after that and does not change the result.
\<close>

definition waitForIP ::
  "'c clientset \<Rightarrow> string \<Rightarrow> string \<Rightarrow> 'c world \<Rightarrow> err option outcome \<times> 'c world" where
  "waitForIP cs namespace podName w =
     (case Pods_Informer cs namespace (client w) of
        (evs, c') \<Rightarrow>
          (let w' = w\<lparr>client := c', calls := calls w @ [InformerCall namespace]\<rparr>
           in case informer_Run ChanOpen podName evs of
                Returns u \<Rightarrow> (Returns None, w')
              | Blocks \<Rightarrow> (Blocks, w')
              | Panics \<Rightarrow> (Panics, w')))"

text \<open>
  \<open>cleanupPod\<close> deletes under a context of its own (ten seconds on the background
  context) and logs a failure; it returns nothing.
\<close>

definition cleanupPod :: "spawner \<Rightarrow> 'c clientset \<Rightarrow> pod \<Rightarrow> 'c world \<Rightarrow> 'c world" where
  "cleanupPod spw cs p w =
     (let ctx = WithTimeout Background 10
      in case call_Delete cs (PatientNamespace spw) ctx (pod_Name p) w of
           (Some e, w') \<Rightarrow> w'\<lparr>logs := logs w' @ [(''deleting patient pod: %s'', e)]\<rparr>
         | (None, w') \<Rightarrow> w')"

text \<open>
  A deferred call runs when the function returns. It does not run when the function
  never returns, and it cannot touch the value already returned (\<open>Run\<close> has an unnamed
  result).
\<close>

definition deferred :: "('w \<Rightarrow> 'w) \<Rightarrow> 'a outcome \<times> 'w \<Rightarrow> 'a outcome \<times> 'w" where
  "deferred f r =
     (case r of
        (Returns v, w) \<Rightarrow> (Returns v, f w)
      | (Blocks, w) \<Rightarrow> (Blocks, w)
      | (Panics, w) \<Rightarrow> (Panics, w))"

text \<open>The statements of \<open>Run\<close> after the \<open>defer\<close>: the wait and the delete.\<close>

definition Run_after_defer ::
  "spawner \<Rightarrow> go_context \<Rightarrow> 'c clientset \<Rightarrow> pod \<Rightarrow> 'c world \<Rightarrow> err option outcome \<times> 'c world" where
  "Run_after_defer spw ctx cs p w =
     (case waitForIP cs (PatientNamespace spw) (pod_Name p) w of
        (Blocks, w1) \<Rightarrow> (Blocks, w1)
      | (Panics, w1) \<Rightarrow> (Panics, w1)
      | (Returns (Some e), w1) \<Rightarrow>
          (Returns (Some (Errorf_w ''waiting on patient pod to get an IP: %w'' e)), w1)
      | (Returns None, w1) \<Rightarrow>
          (case call_Delete cs (PatientNamespace spw) ctx (pod_Name p) w1 of
             (Some e, w2) \<Rightarrow> (Returns (Some (Errorf_w ''deleting patient pod: %w'' e)), w2)
           | (None, w2) \<Rightarrow> (Returns None, w2)))"

text \<open>
  \<open>Run\<close>. \<open>hostname\<close> is what \<open>os.Hostname()\<close> gives (its error is dropped by the
  source). The result \<open>Returns None\<close> is \<open>nil\<close>.
\<close>

definition Run ::
  "codec \<Rightarrow> string \<Rightarrow> spawner \<Rightarrow> go_context \<Rightarrow> 'c clientset \<Rightarrow> 'c world
     \<Rightarrow> err option outcome \<times> 'c world" where
  "Run cd hostname spw ctx cs w =
     (case decodePodTemplate cd (PodTemplate spw) of
        Inl e \<Rightarrow> (Returns (Some (Errorf_w ''decoding pod template: %w'' e)), w)
      | Inr tmpPod \<Rightarrow>
          (let myName = hostname
           in case call_Get cs (PatientNamespace spw) ctx myName w of
                (Inl e, w1) \<Rightarrow>
                  (Returns (Some (Errorf_w ''fetching data about myself: %w'' e)), w1)
              | (Inr parentPod, w1) \<Rightarrow>
                  (let tmpPod' = configurePod spw tmpPod parentPod
                   in case call_Create cs (PatientNamespace spw) ctx tmpPod' w1 of
                        (Inl e, w2) \<Rightarrow>
                          (Returns (Some (Errorf_w ''creating patient pod: %w'' e)), w2)
                      | (Inr p, w2) \<Rightarrow>
                          deferred (cleanupPod spw cs p) (Run_after_defer spw ctx cs p w2))))"

section \<open>A small cluster to run the cycle on\<close>

text \<open>
  A client whose state is the list of pods that exist. \<open>Get\<close> and \<open>Delete\<close> fail on a
  pod that is not there, \<open>Create\<close> fails on a name that is taken; \<open>deletes_ok\<close>
  switches every delete to a refusal, and the informer delivers the given events.
\<close>

definition find_pod :: "string \<Rightarrow> pod list \<Rightarrow> pod option" where
  "find_pod name ps = find (\<lambda>p. pod_Name p = name) ps"

definition list_clientset :: "event list \<Rightarrow> bool \<Rightarrow> (pod list) clientset" where
  "list_clientset evs deletes_ok =
     \<lparr>Pods_Get = (\<lambda>ns ctx name ps.
        (case find_pod name ps of
           None \<Rightarrow> Inl (ExternalError ''not found'')
         | Some p \<Rightarrow> Inr p, ps)),
      Pods_Create = (\<lambda>ns ctx p ps.
        (case find_pod (pod_Name p) ps of
           None \<Rightarrow> (Inr p, ps @ [p])
         | Some q \<Rightarrow> (Inl (ExternalError ''already exists''), ps))),
      Pods_Delete = (\<lambda>ns ctx name ps.
        (if \<not> deletes_ok then (Some (ExternalError ''forbidden''), ps)
         else case find_pod name ps of
                None \<Rightarrow> (Some (ExternalError ''not found''), ps)
              | Some p \<Rightarrow> (None, filter (\<lambda>q. pod_Name q \<noteq> name) ps))),
      Pods_Informer = (\<lambda>ns ps. (evs, ps))\<rparr>"

definition nurse_pod :: pod where
  "nurse_pod = zero_pod\<lparr>pod_Name := ''nurse'', pod_UID := ''uid-1'', pod_PodIP := ''10.22.33.4''\<rparr>"

definition nurse_world :: "(pod list) world" where
  "nurse_world = \<lparr>client = [nurse_pod], calls = [], logs = []\<rparr>"

definition nurse_spawner :: spawner where
  "nurse_spawner = \<lparr>PatientNamespace = ''kube-system'', PatientImage = ''kubenurse:v1'',
     ServiceURL = ''http://svc'', IngressURL = ''http://ing'', PodTemplate = []\<rparr>"

definition ok_codec :: codec where
  "ok_codec = \<lparr>AddToScheme = None,
     parse_document = (\<lambda>d. Inr (zero_pod,
        \<lparr>gvk_Group = ''apps'', gvk_Version = ''v1'', gvk_Kind = d\<rparr>))\<rparr>"

definition probe_template :: pod where
  "probe_template = zero_pod\<lparr>pod_Containers :=
     [\<lparr>c_Name = ''probe'', c_Image = ''busybox'', c_Args = [],
       c_Env = [\<lparr>ev_Name = ''FOO'', ev_Value = ''bar''\<rparr>], c_ImagePullPolicy = ''Always''\<rparr>]\<rparr>"

text \<open>The pod, the events and the cluster of \<open>TestWaitForIP\<close>.\<close>

definition my_pod :: pod where
  "my_pod = zero_pod\<lparr>pod_Name := ''my-pod''\<rparr>"

definition test_events :: "event list" where
  "test_events =
     [AddEvent (PodObj my_pod),
      UpdateEvent (PodObj my_pod) (PodObj (my_pod\<lparr>pod_PodIP := ''10.11.12.13''\<rparr>))]"

definition test_world :: "(pod list) world" where
  "test_world = \<lparr>client = [my_pod], calls = [], logs = []\<rparr>"

definition patient_event :: "string \<Rightarrow> event" where
  "patient_event ip =
     UpdateEvent (PodObj (zero_pod\<lparr>pod_Name := ''nurse-patient''\<rparr>))
                 (PodObj (zero_pod\<lparr>pod_Name := ''nurse-patient'', pod_PodIP := ip\<rparr>))"

section \<open>Properties of the hostname derivation\<close>

text \<open>
  With the pattern \<open>"."\<close> and the replacement \<open>"-"\<close>, the replacement loop walks
  over a dot-free stretch unchanged and spends one unit of its budget on each dot.
\<close>

lemma replace_first_no_dot:
  "CHR ''.'' \<notin> set a \<Longrightarrow> replace_first k ''.'' ''-'' (a @ s) = a @ replace_first k ''.'' ''-'' s"
proof (induction a)
  case Nil
  then show ?case by simp
next
  case (Cons x a)
  then show ?case by (cases k) auto
qed

lemma replace_first_segment:
  "CHR ''.'' \<notin> set a \<Longrightarrow>
   replace_first (Suc k) ''.'' ''-'' (a @ CHR ''.'' # s) = a @ CHR ''-'' # replace_first k ''.'' ''-'' s"
  using replace_first_no_dot [of a "Suc k" "CHR ''.'' # s"] by simp

lemma replace_first_all:
  "count_list s (CHR ''.'') \<le> k \<Longrightarrow> replace_first k ''.'' ''-'' s = dots_to_hyphens s"
proof (induction k "''.''" "''-''" s rule: replace_first.induct)
  case (1 s)
  then show ?case by (induction s) (auto simp: dots_to_hyphens_def split: if_splits)
next
  case (2 k)
  then show ?case by (simp add: dots_to_hyphens_def)
next
  case (3 k c cs)
  then show ?case by (auto simp: dots_to_hyphens_def split: if_splits)
qed

lemma replace_first_count:
  "count_list (replace_first k ''.'' ''-'' s) (CHR ''.'') = count_list s (CHR ''.'') - k"
proof (induction k "''.''" "''-''" s rule: replace_first.induct)
  case (1 s)
  then show ?case by simp
next
  case (2 k)
  then show ?case by simp
next
  case (3 k c cs)
  then show ?case by (auto split: if_splits)
qed

lemma count_dot_free: "CHR ''.'' \<notin> set a \<Longrightarrow> count_list a (CHR ''.'') = 0"
  by (induction a) auto

lemma dots_to_hyphens_dot_free: "CHR ''.'' \<notin> set a \<Longrightarrow> dots_to_hyphens a = a"
  by (induction a) (auto simp: dots_to_hyphens_def)

lemma dots_to_hyphens_dot: "dots_to_hyphens (CHR ''.'' # s) = CHR ''-'' # dots_to_hyphens s"
  by (simp add: dots_to_hyphens_def)

lemma dots_to_hyphens_append: "dots_to_hyphens (a @ b) = dots_to_hyphens a @ dots_to_hyphens b"
  by (simp add: dots_to_hyphens_def)

lemma four_segments:
  assumes "CHR ''.'' \<notin> set a \<union> set b \<union> set c \<union> set d"
  shows "replace_first 4 ''.'' ''-'' (a @ ''.'' @ b @ ''.'' @ c @ ''.'' @ d @ ''.'' @ rest)
       = a @ ''-'' @ b @ ''-'' @ c @ ''-'' @ d @ ''-'' @ rest"
proof -
  have n: "(4::nat) = Suc (Suc (Suc (Suc 0)))" by simp
  from assms show ?thesis
    unfolding n by (simp add: replace_first_segment del: replace_first.simps(3))
qed

lemma three_segments:
  assumes "CHR ''.'' \<notin> set a \<union> set b \<union> set c \<union> set d"
  shows "replace_first 4 ''.'' ''-'' (a @ ''.'' @ b @ ''.'' @ c @ ''.'' @ d)
       = a @ ''-'' @ b @ ''-'' @ c @ ''-'' @ d"
proof -
  have n: "(4::nat) = Suc (Suc (Suc (Suc 0)))" by simp
  from assms have d: "replace_first (Suc 0) ''.'' ''-'' d = d"
    using replace_first_no_dot [of d "Suc 0" "[]"] by simp
  from assms show ?thesis
    unfolding n by (simp add: replace_first_segment d del: replace_first.simps)
qed

lemma count_list_suffix_dots: "count_list ''.default.pod.cluster.local'' (CHR ''.'') = 4"
  by simp

text \<open>
  Claim C4: for a parent pod whose address has the form \<open>A.B.C.D\<close> (four dot-free
  parts separated by three dots), the derived hostname is the address with every dot
  replaced by a hyphen, followed by the fixed suffix; for the address \<open>10.22.33.4\<close> it is
  exactly \<open>10-22-33-4.default.pod.cluster.local\<close>.
\<close>

theorem getPodSDHostname_dotted_quad:
  assumes "pod_PodIP p = a @ ''.'' @ b @ ''.'' @ c @ ''.'' @ d"
    and "CHR ''.'' \<notin> set a \<union> set b \<union> set c \<union> set d"
  shows "getPodSDHostname p = dots_to_hyphens (pod_PodIP p) @ ''.default.pod.cluster.local''
       \<and> getPodSDHostname p
           = a @ ''-'' @ b @ ''-'' @ c @ ''-'' @ d @ ''.default.pod.cluster.local''
       \<and> (pod_PodIP p = ''10.22.33.4''
            \<longrightarrow> getPodSDHostname p = ''10-22-33-4.default.pod.cluster.local'')"
proof -
  have r: "strings_Replace (pod_PodIP p) ''.'' ''-'' 4 = a @ ''-'' @ b @ ''-'' @ c @ ''-'' @ d"
    using three_segments [OF assms(2)] assms(1) by (simp add: strings_Replace_def)
  have m: "dots_to_hyphens (pod_PodIP p) = a @ ''-'' @ b @ ''-'' @ c @ ''-'' @ d"
    using assms
    by (simp add: dots_to_hyphens_append dots_to_hyphens_dot dots_to_hyphens_dot_free)
  have h: "getPodSDHostname p = a @ ''-'' @ b @ ''-'' @ c @ ''-'' @ d @ ''.default.pod.cluster.local''"
    using r by (simp add: getPodSDHostname_def)
  have t: "pod_PodIP p = ''10.22.33.4''
            \<longrightarrow> getPodSDHostname p = ''10-22-33-4.default.pod.cluster.local''"
    by (simp add: getPodSDHostname_def strings_Replace_def numeral_nat)
  from h m t show ?thesis by simp
qed

theorem getPodSDHostname_dotted_quad_witness:
  "getPodSDHostname nurse_pod = ''10-22-33-4.default.pod.cluster.local''
   \<and> dots_to_hyphens (pod_PodIP nurse_pod) = ''10-22-33-4''"
  using getPodSDHostname_dotted_quad [of nurse_pod "''10''" "''22''" "''33''" "''4''"]
  by (simp add: nurse_pod_def zero_pod_def dots_to_hyphens_def)

text \<open>
  Claim C9: the derivation replaces the first four dots only. When the address has
  four dot-free parts, each followed by a dot, whatever comes after the fourth dot is
  copied unchanged, with every dot it holds; and in general the hostname keeps all the
  dots of the address but four, next to the four dots of the suffix.
\<close>

theorem getPodSDHostname_keeps_later_dots:
  assumes "pod_PodIP p = a @ ''.'' @ b @ ''.'' @ c @ ''.'' @ d @ ''.'' @ rest"
    and "CHR ''.'' \<notin> set a \<union> set b \<union> set c \<union> set d"
  shows "getPodSDHostname p
           = a @ ''-'' @ b @ ''-'' @ c @ ''-'' @ d @ ''-'' @ rest @ ''.default.pod.cluster.local''
       \<and> count_list (getPodSDHostname p) (CHR ''.'')
           = (count_list (pod_PodIP p) (CHR ''.'') - 4) + 4"
proof -
  have h: "getPodSDHostname p
           = a @ ''-'' @ b @ ''-'' @ c @ ''-'' @ d @ ''-'' @ rest @ ''.default.pod.cluster.local''"
    using four_segments [OF assms(2), of rest] assms(1)
    by (simp add: getPodSDHostname_def strings_Replace_def)
  have "count_list (getPodSDHostname p) (CHR ''.'')
          = count_list (replace_first 4 ''.'' ''-'' (pod_PodIP p)) (CHR ''.'')
            + count_list ''.default.pod.cluster.local'' (CHR ''.'')"
    by (simp add: getPodSDHostname_def strings_Replace_def del: count_list.simps)
  then have c: "count_list (getPodSDHostname p) (CHR ''.'')
          = (count_list (pod_PodIP p) (CHR ''.'') - 4) + 4"
    by (simp only: replace_first_count count_list_suffix_dots)
  from h c show ?thesis by simp
qed

theorem getPodSDHostname_keeps_later_dots_witness:
  "getPodSDHostname (zero_pod\<lparr>pod_PodIP := ''1.2.3.4.5.6''\<rparr>)
     = ''1-2-3-4-5.6.default.pod.cluster.local''"
  using getPodSDHostname_keeps_later_dots
          [of "zero_pod\<lparr>pod_PodIP := ''1.2.3.4.5.6''\<rparr>" "''1''" "''2''" "''3''" "''4''" "''5.6''"]
  by simp

section \<open>Properties of the pod configuration\<close>

lemma configurePod_containers:
  "pod_Containers (configurePod spw tmpl parent) =
     (case pod_Containers tmpl of
        [] \<Rightarrow> [patient_container\<lparr>c_Image := PatientImage spw, c_Env := patient_env spw parent\<rparr>]
      | c # cs \<Rightarrow> c\<lparr>c_Image := PatientImage spw, c_Env := patient_env spw parent\<rparr> # cs)"
  by (simp add: configurePod_def Let_def split: list.splits)

text \<open>
  Claim C5: whatever the template and the parent, a template with no container gets
  exactly one, named \<open>patient\<close> with the single argument \<open>patient\<close>; after that the
  first container has the configured probe image, whatever image the template declared,
  and its environment is exactly the four entries: the direct URL built from the
  parent's address, the DNS URL built from the derived hostname, the configured ingress
  URL and the configured service URL. Nothing of the template's environment is kept.
\<close>

theorem configurePod_first_container:
  "(pod_Containers tmpl = [] \<longrightarrow>
      length (pod_Containers (configurePod spw tmpl parent)) = 1
      \<and> c_Name (pod_Containers (configurePod spw tmpl parent) ! 0) = ''patient''
      \<and> c_Args (pod_Containers (configurePod spw tmpl parent) ! 0) = [''patient''])
   \<and> c_Image (pod_Containers (configurePod spw tmpl parent) ! 0) = PatientImage spw
   \<and> c_Env (pod_Containers (configurePod spw tmpl parent) ! 0) =
       [\<lparr>ev_Name = ''KUBENURSE_DIRECT_URL'',
          ev_Value = ''http://'' @ pod_PodIP parent @ '':8080''\<rparr>,
        \<lparr>ev_Name = ''KUBENURSE_DNS_URL'',
          ev_Value = ''http://'' @ getPodSDHostname parent @ '':8080''\<rparr>,
        \<lparr>ev_Name = ''KUBENURSE_INGRESS_URL'', ev_Value = IngressURL spw\<rparr>,
        \<lparr>ev_Name = ''KUBENURSE_SERVICE_URL'', ev_Value = ServiceURL spw\<rparr>]"
  by (cases "pod_Containers tmpl")
     (simp_all add: configurePod_containers patient_container_def patient_env_def)

theorem configurePod_first_container_witness:
  "pod_Containers zero_pod = []
   \<and> length (pod_Containers (configurePod nurse_spawner zero_pod nurse_pod)) = 1
   \<and> c_Name (pod_Containers (configurePod nurse_spawner zero_pod nurse_pod) ! 0) = ''patient''
   \<and> c_Args (pod_Containers (configurePod nurse_spawner zero_pod nurse_pod) ! 0) = [''patient'']
   \<and> c_Image (pod_Containers (configurePod nurse_spawner zero_pod nurse_pod) ! 0) = ''kubenurse:v1''
   \<and> c_Env (pod_Containers (configurePod nurse_spawner zero_pod nurse_pod) ! 0) =
       [\<lparr>ev_Name = ''KUBENURSE_DIRECT_URL'', ev_Value = ''http://10.22.33.4:8080''\<rparr>,
        \<lparr>ev_Name = ''KUBENURSE_DNS_URL'',
          ev_Value = ''http://10-22-33-4.default.pod.cluster.local:8080''\<rparr>,
        \<lparr>ev_Name = ''KUBENURSE_INGRESS_URL'', ev_Value = ''http://ing''\<rparr>,
        \<lparr>ev_Name = ''KUBENURSE_SERVICE_URL'', ev_Value = ''http://svc''\<rparr>]
   \<and> c_Image (pod_Containers probe_template ! 0) = ''busybox''
   \<and> c_Env (pod_Containers probe_template ! 0) = [\<lparr>ev_Name = ''FOO'', ev_Value = ''bar''\<rparr>]
   \<and> c_Image (pod_Containers (configurePod nurse_spawner probe_template nurse_pod) ! 0) = ''kubenurse:v1''
   \<and> c_Env (pod_Containers (configurePod nurse_spawner probe_template nurse_pod) ! 0) =
       [\<lparr>ev_Name = ''KUBENURSE_DIRECT_URL'', ev_Value = ''http://10.22.33.4:8080''\<rparr>,
        \<lparr>ev_Name = ''KUBENURSE_DNS_URL'',
          ev_Value = ''http://10-22-33-4.default.pod.cluster.local:8080''\<rparr>,
        \<lparr>ev_Name = ''KUBENURSE_INGRESS_URL'', ev_Value = ''http://ing''\<rparr>,
        \<lparr>ev_Name = ''KUBENURSE_SERVICE_URL'', ev_Value = ''http://svc''\<rparr>]"
proof -
  have h: "getPodSDHostname nurse_pod = ''10-22-33-4.default.pod.cluster.local''"
    by (simp add: getPodSDHostname_def strings_Replace_def nurse_pod_def zero_pod_def numeral_nat)
  have i: "pod_PodIP nurse_pod = ''10.22.33.4''"
    by (simp add: nurse_pod_def zero_pod_def)
  have z: "pod_Containers zero_pod = []" by (simp add: zero_pod_def)
  have t: "pod_Containers probe_template =
     [\<lparr>c_Name = ''probe'', c_Image = ''busybox'', c_Args = [], c_Env =
        [\<lparr>ev_Name = ''FOO'', ev_Value = ''bar''\<rparr>], c_ImagePullPolicy = ''Always''\<rparr>]"
    by (simp add: probe_template_def zero_pod_def)
  show ?thesis
    using configurePod_first_container [of zero_pod nurse_spawner nurse_pod]
      configurePod_first_container [of probe_template nurse_spawner nurse_pod]
    by (simp add: h i z t nurse_spawner_def)
qed

text \<open>
  Claim C6: the child's name is the parent's name followed by \<open>-patient\<close>, and its
  owner references are exactly one reference to the parent: API version \<open>v1\<close>, kind
  \<open>Pod\<close>, the parent's name and the parent's UID.
\<close>

theorem configurePod_name_and_owner:
  "pod_Name (configurePod spw tmpl parent) = pod_Name parent @ ''-patient''
   \<and> pod_OwnerReferences (configurePod spw tmpl parent) =
       [\<lparr>or_APIVersion = ''v1'', or_Kind = ''Pod'',
         or_Name = pod_Name parent, or_UID = pod_UID parent\<rparr>]"
  by (simp add: configurePod_def Let_def)

text \<open>
  Claim C10: the namespace in the DNS name is the constant \<open>default\<close>. For every
  parent and every configured patient namespace \<open>ns\<close>, the value of
  \<open>KUBENURSE_DNS_URL\<close> is \<open>http://\<close>, the dash-encoded address,
  \<open>.default.pod.cluster.local\<close> and the port \<open>:8080\<close>: its host name ends in
  \<open>default.pod.cluster.local\<close>, and the configured namespace has no influence on the
  configured pod at all.
\<close>

theorem dns_url_default_namespace:
  "c_Env (pod_Containers (configurePod (spw\<lparr>PatientNamespace := ns\<rparr>) tmpl parent) ! 0) ! 1
     = \<lparr>ev_Name = ''KUBENURSE_DNS_URL'',
        ev_Value = ''http://'' @ strings_Replace (pod_PodIP parent) ''.'' ''-'' 4
                     @ ''.default.pod.cluster.local'' @ '':8080''\<rparr>
   \<and> suffix ''default.pod.cluster.local'' (getPodSDHostname parent)
   \<and> configurePod (spw\<lparr>PatientNamespace := ns\<rparr>) tmpl parent = configurePod spw tmpl parent"
  by (cases "pod_Containers tmpl")
     (simp_all add: configurePod_def Let_def patient_env_def getPodSDHostname_def suffix_def)

section \<open>Properties of the template decoder\<close>

text \<open>
  Claim C7: decoding a nil or empty template gives the zero-valued pod and no error,
  provided the scheme could be built.
\<close>

theorem decodePodTemplate_empty:
  "AddToScheme cd = None \<Longrightarrow> decodePodTemplate cd [] = Inr zero_pod"
  by (simp add: decodePodTemplate_def universal_decode_def)

theorem decodePodTemplate_empty_witness:
  "AddToScheme ok_codec = None \<and> decodePodTemplate ok_codec [] = Inr zero_pod"
proof -
  have a: "AddToScheme ok_codec = None" by (simp add: ok_codec_def)
  from a decodePodTemplate_empty [OF a] show ?thesis by simp
qed

text \<open>
  Claim C8: when the scheme is built and the document parses, the kind that was
  resolved decides: any kind other than \<open>Pod\<close> gives the kind-mismatch error, which
  carries the group-version-kind that was found; the kind \<open>Pod\<close> gives the decoded
  pod.
\<close>

theorem decodePodTemplate_kind_check:
  assumes "AddToScheme cd = None"
    and "universal_decode cd tmpl zero_pod = Inr (p, g)"
  shows "(gvk_Kind g \<noteq> ''Pod'' \<longrightarrow>
            decodePodTemplate cd tmpl
              = Inl (Errorf_q ''pod template is not of type Pod, got: %q'' g))
       \<and> (gvk_Kind g = ''Pod'' \<longrightarrow> decodePodTemplate cd tmpl = Inr p)"
  using assms by (simp add: decodePodTemplate_def)

theorem decodePodTemplate_kind_check_witness:
  "decodePodTemplate ok_codec ''Deployment''
     = Inl (Errorf_q ''pod template is not of type Pod, got: %q''
              \<lparr>gvk_Group = ''apps'', gvk_Version = ''v1'', gvk_Kind = ''Deployment''\<rparr>)
   \<and> decodePodTemplate ok_codec ''Pod'' = Inr zero_pod"
proof -
  have a: "AddToScheme ok_codec = None" by (simp add: ok_codec_def)
  have d: "universal_decode ok_codec ''Deployment'' zero_pod
     = Inr (zero_pod, \<lparr>gvk_Group = ''apps'', gvk_Version = ''v1'', gvk_Kind = ''Deployment''\<rparr>)"
    by (simp add: universal_decode_def ok_codec_def)
  have p: "universal_decode ok_codec ''Pod'' zero_pod
     = Inr (zero_pod, \<lparr>gvk_Group = ''apps'', gvk_Version = ''v1'', gvk_Kind = ''Pod''\<rparr>)"
    by (simp add: universal_decode_def ok_codec_def)
  from decodePodTemplate_kind_check [OF a d] decodePodTemplate_kind_check [OF a p]
  show ?thesis by simp
qed

section \<open>Properties of the address wait\<close>

text \<open>
  Started on an open channel, \<open>informer.Run\<close> never returns: the handlers send on the
  channel, nothing closes it. So \<open>waitForIP\<close> never returns either, and all it does
  to the world is build the informer.
\<close>

lemma informer_Run_open: "informer_Run ChanOpen podName evs \<noteq> Returns u"
  by (induction evs) (auto split: handler_action.splits)

lemma waitForIP_never_returns: "fst (waitForIP cs ns podName w) \<noteq> Returns r"
  using informer_Run_open [of podName]
  by (auto simp: waitForIP_def Let_def split: prod.splits outcome.splits)

lemma waitForIP_calls: "calls (snd (waitForIP cs ns podName w)) = calls w @ [InformerCall ns]"
  by (simp add: waitForIP_def Let_def split: prod.splits outcome.splits)

text \<open>
  Claim C2 says that the first event with the target name and a non-empty address
  signals completion and stops the watch, once. In the code that event makes the
  handler send on \<open>c\<close>, and the send does not stop the informer. On the events of
  \<open>TestWaitForIP\<close> (the pod is added without an address, then updated with the address
  \<open>10.11.12.13\<close>) the handler sends at the update and \<open>waitForIP\<close> blocks; a further
  update with another address makes the handler send again, and \<open>waitForIP\<close> still
  blocks. No client and no events make \<open>waitForIP\<close> return.
\<close>

theorem waitForIP_blocks_after_address:
  "handle_event ''my-pod''
      (UpdateEvent (PodObj my_pod) (PodObj (my_pod\<lparr>pod_PodIP := ''10.11.12.13''\<rparr>))) = SendOnC
   \<and> waitForIP (list_clientset test_events True) ''test-ns'' ''my-pod'' test_world
       = (Blocks, test_world\<lparr>calls := [InformerCall ''test-ns'']\<rparr>)
   \<and> handle_event ''my-pod''
      (UpdateEvent (PodObj (my_pod\<lparr>pod_PodIP := ''10.11.12.13''\<rparr>))
                   (PodObj (my_pod\<lparr>pod_PodIP := ''10.11.12.14''\<rparr>))) = SendOnC
   \<and> waitForIP (list_clientset
         (test_events @ [UpdateEvent (PodObj (my_pod\<lparr>pod_PodIP := ''10.11.12.13''\<rparr>))
                                     (PodObj (my_pod\<lparr>pod_PodIP := ''10.11.12.14''\<rparr>))]) True)
         ''test-ns'' ''my-pod'' test_world
       = (Blocks, test_world\<lparr>calls := [InformerCall ''test-ns'']\<rparr>)
   \<and> fst (waitForIP cs ns podName w) \<noteq> Returns r"
proof -
  have h1: "handle_event ''my-pod''
      (UpdateEvent (PodObj my_pod) (PodObj (my_pod\<lparr>pod_PodIP := ''10.11.12.13''\<rparr>))) = SendOnC"
    by (simp add: assert_pod_def checkForIP_def my_pod_def zero_pod_def)
  have h2: "handle_event ''my-pod''
      (UpdateEvent (PodObj (my_pod\<lparr>pod_PodIP := ''10.11.12.13''\<rparr>))
                   (PodObj (my_pod\<lparr>pod_PodIP := ''10.11.12.14''\<rparr>))) = SendOnC"
    by (simp add: assert_pod_def checkForIP_def my_pod_def zero_pod_def)
  have h0: "handle_event ''my-pod'' (AddEvent (PodObj my_pod)) = NoOp"
    by (simp add: assert_pod_def checkForIP_def my_pod_def zero_pod_def)
  have r1: "informer_Run ChanOpen ''my-pod'' test_events = Blocks"
    by (simp add: test_events_def h0 h1 del: handle_event.simps)
  have r2: "informer_Run ChanOpen ''my-pod''
       (test_events @ [UpdateEvent (PodObj (my_pod\<lparr>pod_PodIP := ''10.11.12.13''\<rparr>))
                                   (PodObj (my_pod\<lparr>pod_PodIP := ''10.11.12.14''\<rparr>))]) = Blocks"
    by (simp add: test_events_def h0 h1 h2 del: handle_event.simps)
  have w1: "waitForIP (list_clientset test_events True) ''test-ns'' ''my-pod'' test_world
       = (Blocks, test_world\<lparr>calls := [InformerCall ''test-ns'']\<rparr>)"
    by (simp add: waitForIP_def Let_def list_clientset_def r1 test_world_def)
  have w2: "waitForIP (list_clientset
         (test_events @ [UpdateEvent (PodObj (my_pod\<lparr>pod_PodIP := ''10.11.12.13''\<rparr>))
                                     (PodObj (my_pod\<lparr>pod_PodIP := ''10.11.12.14''\<rparr>))]) True)
         ''test-ns'' ''my-pod'' test_world
       = (Blocks, test_world\<lparr>calls := [InformerCall ''test-ns'']\<rparr>)"
    by (simp add: waitForIP_def Let_def list_clientset_def r2 test_world_def)
  from h1 h2 w1 w2 waitForIP_never_returns [of cs ns podName w r] show ?thesis
    by blast
qed

section \<open>Properties of the cycle\<close>

text \<open>
  The paths of \<open>Run\<close> that end before the pod is created: each returns the error of
  the failed step wrapped with the name of the step, and none calls a delete.
\<close>

lemma Run_decode_fails:
  "decodePodTemplate cdc (PodTemplate spw) = Inl e \<Longrightarrow>
   Run cdc hostname spw ctx cs w = (Returns (Some (Errorf_w ''decoding pod template: %w'' e)), w)"
  by (simp add: Run_def)

lemma Run_get_fails:
  "decodePodTemplate cdc (PodTemplate spw) = Inr t \<Longrightarrow>
   Pods_Get cs (PatientNamespace spw) ctx hostname (client w) = (Inl e, c_get) \<Longrightarrow>
   Run cdc hostname spw ctx cs w
     = (Returns (Some (Errorf_w ''fetching data about myself: %w'' e)),
        w\<lparr>client := c_get, calls := calls w @ [GetCall (PatientNamespace spw) ctx hostname]\<rparr>)"
  by (simp add: Run_def call_Get_def)

lemma Run_create_fails:
  "decodePodTemplate cdc (PodTemplate spw) = Inr t \<Longrightarrow>
   Pods_Get cs (PatientNamespace spw) ctx hostname (client w) = (Inr parent, c_get) \<Longrightarrow>
   Pods_Create cs (PatientNamespace spw) ctx (configurePod spw t parent) c_get = (Inl e, c_new) \<Longrightarrow>
   Run cdc hostname spw ctx cs w
     = (Returns (Some (Errorf_w ''creating patient pod: %w'' e)),
        w\<lparr>client := c_new, calls := calls w @ [GetCall (PatientNamespace spw) ctx hostname,
             CreateCall (PatientNamespace spw) ctx (configurePod spw t parent)]\<rparr>)"
  by (simp add: Run_def call_Get_def call_Create_def)

lemma Run_created:
  "decodePodTemplate cdc (PodTemplate spw) = Inr t \<Longrightarrow>
   Pods_Get cs (PatientNamespace spw) ctx hostname (client w) = (Inr parent, c_get) \<Longrightarrow>
   Pods_Create cs (PatientNamespace spw) ctx (configurePod spw t parent) c_get = (Inr p, c_new) \<Longrightarrow>
   Run cdc hostname spw ctx cs w
     = deferred (cleanupPod spw cs p)
         (Run_after_defer spw ctx cs p
            (w\<lparr>client := c_new, calls := calls w @ [GetCall (PatientNamespace spw) ctx hostname,
                 CreateCall (PatientNamespace spw) ctx (configurePod spw t parent)]\<rparr>))"
  by (simp add: Run_def call_Get_def call_Create_def)

text \<open>
  After the \<open>defer\<close>, \<open>Run\<close> waits for the address, and the wait does not return:
  the rest of \<open>Run\<close> returns nothing and only builds the informer, and the deferred
  \<open>cleanupPod\<close> is never started.
\<close>

lemma Run_after_defer_eq:
  "Run_after_defer spw ctx cs p w = waitForIP cs (PatientNamespace spw) (pod_Name p) w"
proof (cases "waitForIP cs (PatientNamespace spw) (pod_Name p) w")
  case (Pair r w')
  have n: "r \<noteq> Returns v" for v
    using waitForIP_never_returns [of cs "PatientNamespace spw" "pod_Name p" w v] Pair
    by simp
  have "r = Blocks \<or> r = Panics"
  proof (cases r)
    case (Returns v)
    with n [of v] show ?thesis by simp
  qed simp_all
  with Pair show ?thesis
    by (auto simp: Run_after_defer_def)
qed

lemma Run_after_defer_never_returns: "fst (Run_after_defer spw ctx cs p w) \<noteq> Returns v"
  by (simp add: Run_after_defer_eq waitForIP_never_returns)

lemma Run_after_defer_calls:
  "calls (snd (Run_after_defer spw ctx cs p w)) = calls w @ [InformerCall (PatientNamespace spw)]"
  by (simp add: Run_after_defer_eq waitForIP_calls)

lemma deferred_not_started: "(\<And>v. fst r \<noteq> Returns v) \<Longrightarrow> deferred f r = r"
  by (cases r) (auto simp: deferred_def split: outcome.splits)

lemma Run_no_delete:
  "filter is_delete (calls (snd (Run cdc hostname spw ctx cs w))) = filter is_delete (calls w)"
proof (cases "decodePodTemplate cdc (PodTemplate spw)")
  case (Inl e)
  then show ?thesis by (simp add: Run_decode_fails)
next
  case (Inr t)
  obtain rg cg where g: "Pods_Get cs (PatientNamespace spw) ctx hostname (client w) = (rg, cg)"
    by (cases "Pods_Get cs (PatientNamespace spw) ctx hostname (client w)")
  show ?thesis
  proof (cases rg)
    case (Inl e)
    with Inr g show ?thesis by (simp add: Run_get_fails)
  next
    case parent: (Inr parent)
    obtain rc cc where c:
      "Pods_Create cs (PatientNamespace spw) ctx (configurePod spw t parent) cg = (rc, cc)"
      by (cases "Pods_Create cs (PatientNamespace spw) ctx (configurePod spw t parent) cg")
    show ?thesis
    proof (cases rc)
      case (Inl e)
      with Inr g parent c show ?thesis by (simp add: Run_create_fails)
    next
      case p: (Inr p)
      let ?w2 = "w\<lparr>client := cc, calls := calls w @ [GetCall (PatientNamespace spw) ctx hostname,
                 CreateCall (PatientNamespace spw) ctx (configurePod spw t parent)]\<rparr>"
      have r: "Run cdc hostname spw ctx cs w
         = deferred (cleanupPod spw cs p) (Run_after_defer spw ctx cs p ?w2)"
        using Inr g parent c p by (simp add: Run_created)
      have d: "deferred (cleanupPod spw cs p) (Run_after_defer spw ctx cs p ?w2)
         = Run_after_defer spw ctx cs p ?w2"
        by (rule deferred_not_started) (rule Run_after_defer_never_returns)
      show ?thesis
        unfolding r d by (simp add: Run_after_defer_calls)
    qed
  qed
qed

text \<open>The cycle on the small cluster.\<close>

lemma configurePod_pod_Name: "pod_Name (configurePod spw t parent) = pod_Name parent @ ''-patient''"
  by (simp add: configurePod_def Let_def)

lemma child_name: "pod_Name (configurePod nurse_spawner zero_pod nurse_pod) = ''nurse-patient''"
  by (simp add: configurePod_pod_Name nurse_pod_def zero_pod_def)

lemma nurse_ns: "PatientNamespace nurse_spawner = ''kube-system''"
  by (simp add: nurse_spawner_def)

lemma decode_nurse: "decodePodTemplate ok_codec (PodTemplate nurse_spawner) = Inr zero_pod"
  by (simp add: decodePodTemplate_def universal_decode_def ok_codec_def nurse_spawner_def)

lemma get_nurse:
  "Pods_Get (list_clientset evs ok) ns ctx ''nurse'' (client nurse_world) = (Inr nurse_pod, [nurse_pod])"
  by (simp add: list_clientset_def nurse_world_def find_pod_def nurse_pod_def zero_pod_def)

lemma create_patient:
  "Pods_Create (list_clientset evs ok) ns ctx (configurePod nurse_spawner zero_pod nurse_pod) [nurse_pod]
     = (Inr (configurePod nurse_spawner zero_pod nurse_pod),
        [nurse_pod, configurePod nurse_spawner zero_pod nurse_pod])"
  by (simp add: list_clientset_def find_pod_def child_name) (simp add: nurse_pod_def zero_pod_def)

lemma Run_nurse_created:
  "Run ok_codec ''nurse'' nurse_spawner ctx (list_clientset evs ok) nurse_world
     = Run_after_defer nurse_spawner ctx (list_clientset evs ok)
         (configurePod nurse_spawner zero_pod nurse_pod)
         (nurse_world\<lparr>client := [nurse_pod, configurePod nurse_spawner zero_pod nurse_pod],
            calls := calls nurse_world @
              [GetCall (PatientNamespace nurse_spawner) ctx ''nurse'',
               CreateCall (PatientNamespace nurse_spawner) ctx
                 (configurePod nurse_spawner zero_pod nurse_pod)]\<rparr>)"
proof -
  have "Run ok_codec ''nurse'' nurse_spawner ctx (list_clientset evs ok) nurse_world
     = deferred (cleanupPod nurse_spawner (list_clientset evs ok)
                   (configurePod nurse_spawner zero_pod nurse_pod))
         (Run_after_defer nurse_spawner ctx (list_clientset evs ok)
            (configurePod nurse_spawner zero_pod nurse_pod)
            (nurse_world\<lparr>client := [nurse_pod, configurePod nurse_spawner zero_pod nurse_pod],
               calls := calls nurse_world @
                 [GetCall (PatientNamespace nurse_spawner) ctx ''nurse'',
                  CreateCall (PatientNamespace nurse_spawner) ctx
                    (configurePod nurse_spawner zero_pod nurse_pod)]\<rparr>))"
    by (rule Run_created [OF decode_nurse get_nurse create_patient])
  also have "\<dots> = Run_after_defer nurse_spawner ctx (list_clientset evs ok)
         (configurePod nurse_spawner zero_pod nurse_pod)
         (nurse_world\<lparr>client := [nurse_pod, configurePod nurse_spawner zero_pod nurse_pod],
            calls := calls nurse_world @
              [GetCall (PatientNamespace nurse_spawner) ctx ''nurse'',
               CreateCall (PatientNamespace nurse_spawner) ctx
                 (configurePod nurse_spawner zero_pod nurse_pod)]\<rparr>)"
    by (rule deferred_not_started) (rule Run_after_defer_never_returns)
  finally show ?thesis .
qed

text \<open>
  Claim C1 says that once the pod is created, a failure of a later step, the address
  wait included, is followed by the cleanup delete before \<open>Run\<close> returns. In the code
  the address wait never completes, so after a successful create \<open>Run\<close> neither
  returns nor starts the deferred \<open>cleanupPod\<close>. On the small cluster, with an
  informer that reports the patient pod with the address \<open>10.0.0.7\<close>, \<open>Run\<close>
  blocks after \<open>Get\<close>, \<open>Create\<close> and the informer: no delete is called, nothing is
  logged and the patient pod stays in the cluster. And whatever the template, the
  client and the events are, \<open>Run\<close> adds no delete to the calls made.
\<close>

theorem Run_never_starts_cleanup:
  "Run ok_codec ''nurse'' nurse_spawner (WithTimeout Background 120)
       (list_clientset [patient_event ''10.0.0.7''] True) nurse_world
     = (Blocks,
        \<lparr>client = [nurse_pod, configurePod nurse_spawner zero_pod nurse_pod],
         calls = [GetCall ''kube-system'' (WithTimeout Background 120) ''nurse'',
                  CreateCall ''kube-system'' (WithTimeout Background 120)
                    (configurePod nurse_spawner zero_pod nurse_pod),
                  InformerCall ''kube-system''],
         logs = []\<rparr>)
   \<and> filter is_delete (calls (snd (Run cdc hostname spw ctx cs w))) = filter is_delete (calls w)"
proof -
  have h: "handle_event ''nurse-patient'' (patient_event ''10.0.0.7'') = SendOnC"
    by (simp add: patient_event_def assert_pod_def checkForIP_def zero_pod_def)
  have b: "informer_Run ChanOpen ''nurse-patient'' [patient_event ''10.0.0.7''] = Blocks"
    by (simp add: h)
  have "Run ok_codec ''nurse'' nurse_spawner (WithTimeout Background 120)
       (list_clientset [patient_event ''10.0.0.7''] True) nurse_world
     = (Blocks,
        \<lparr>client = [nurse_pod, configurePod nurse_spawner zero_pod nurse_pod],
         calls = [GetCall ''kube-system'' (WithTimeout Background 120) ''nurse'',
                  CreateCall ''kube-system'' (WithTimeout Background 120)
                    (configurePod nurse_spawner zero_pod nurse_pod),
                  InformerCall ''kube-system''],
         logs = []\<rparr>)"
    unfolding Run_nurse_created
    by (simp add: Run_after_defer_def waitForIP_def Let_def child_name b nurse_ns
          list_clientset_def nurse_world_def del: informer_Run.simps)
  then show ?thesis
    by (simp add: Run_no_delete)
qed

text \<open>
  Claim C3 asks that the deadline of the cycle ends the address wait with a timeout
  error. \<open>waitForIP\<close> is not given the context, and no input makes it return an
  error. On the small cluster, under a context with a deadline of 120 seconds and an
  informer that only ever reports the patient pod without an address, \<open>Run\<close> does
  not return: the wait blocks, no timeout error comes back, no delete is called and the
  patient pod stays in the cluster.
\<close>

theorem Run_blocks_without_address:
  "fst (waitForIP cs ns podName w) \<noteq> Returns (Some e)
   \<and> Run ok_codec ''nurse'' nurse_spawner (WithTimeout Background 120)
       (list_clientset [patient_event []] True) nurse_world
     = (Blocks,
        \<lparr>client = [nurse_pod, configurePod nurse_spawner zero_pod nurse_pod],
         calls = [GetCall ''kube-system'' (WithTimeout Background 120) ''nurse'',
                  CreateCall ''kube-system'' (WithTimeout Background 120)
                    (configurePod nurse_spawner zero_pod nurse_pod),
                  InformerCall ''kube-system''],
         logs = []\<rparr>)"
proof -
  have h: "handle_event ''nurse-patient'' (patient_event []) = NoOp"
    by (simp add: patient_event_def assert_pod_def checkForIP_def zero_pod_def)
  have b: "informer_Run ChanOpen ''nurse-patient'' [patient_event []] = Blocks"
    by (simp add: h)
  have "Run ok_codec ''nurse'' nurse_spawner (WithTimeout Background 120)
       (list_clientset [patient_event []] True) nurse_world
     = (Blocks,
        \<lparr>client = [nurse_pod, configurePod nurse_spawner zero_pod nurse_pod],
         calls = [GetCall ''kube-system'' (WithTimeout Background 120) ''nurse'',
                  CreateCall ''kube-system'' (WithTimeout Background 120)
                    (configurePod nurse_spawner zero_pod nurse_pod),
                  InformerCall ''kube-system''],
         logs = []\<rparr>)"
    unfolding Run_nurse_created
    by (simp add: Run_after_defer_def waitForIP_def Let_def child_name b nurse_ns
          list_clientset_def nurse_world_def del: informer_Run.simps)
  then show ?thesis
    using waitForIP_never_returns [of cs ns podName w "Some e"] by simp
qed

end
